theory Spec2Isabelle
  imports Main "HOL-Library.Word"
begin

unbundle bit_operations_syntax

section \<open>JavaScript values\<close>

text \<open>
  The exceptions the modelled code can raise: the \<^verbatim>\<open>TypeError\<close> of a member read on
  \<^verbatim>\<open>undefined\<close> or \<^verbatim>\<open>null\<close>, the \<^verbatim>\<open>RangeError\<close> of an out-of-bounds buffer read,
  an \<^verbatim>\<open>Error\<close> constructed with a message, and the exceptions of the library calls
  (file read, YAML parse), which carry their own text.
\<close>

datatype js_error = TypeError | RangeError | Error string | LibraryError string

text \<open>
  The values that flow through the program. Numbers are integers plus \<^verbatim>\<open>NaN\<close>
  (no fractional value decides a branch of the modelled code); an object is the list of
  its own properties in insertion order; buffers and streams are objects without named
  properties of their own.
\<close>

datatype jsval =
    JUndefined
  | JNull
  | JBool bool
  | JNum int
  | JNaN
  | JStr string
  | JArr "jsval list"
  | JObj "(string \<times> jsval) list"
  | JBuffer "8 word list"
  | JStream string
  | JErr js_error

text \<open>Truthiness: \<^verbatim>\<open>undefined\<close>, \<^verbatim>\<open>null\<close>, \<^verbatim>\<open>false\<close>, \<^verbatim>\<open>0\<close>, \<^verbatim>\<open>NaN\<close> and \<^verbatim>\<open>''\<close> are falsy.\<close>

fun truthy :: "jsval \<Rightarrow> bool" where
  "truthy JUndefined = False"
| "truthy JNull = False"
| "truthy (JBool b) = b"
| "truthy (JNum n) = (n \<noteq> 0)"
| "truthy JNaN = False"
| "truthy (JStr s) = (s \<noteq> [])"
| "truthy _ = True"

definition js_or :: "jsval \<Rightarrow> jsval \<Rightarrow> jsval" where
  "js_or a b = (if truthy a then a else b)"

definition js_and :: "jsval \<Rightarrow> jsval \<Rightarrow> jsval" where
  "js_and a b = (if truthy a then b else a)"

definition js_not :: "jsval \<Rightarrow> jsval" where
  "js_not a = JBool (\<not> truthy a)"

text \<open>
  \<^verbatim>\<open>v.k\<close>: a \<^verbatim>\<open>TypeError\<close> on \<^verbatim>\<open>undefined\<close> and \<^verbatim>\<open>null\<close>, the property of an
  object, and \<^verbatim>\<open>undefined\<close> otherwise (the names read by the modelled code are no
  built-in property of a primitive, an array, a buffer or a stream).
\<close>

fun js_member :: "jsval \<Rightarrow> string \<Rightarrow> js_error + jsval" where
  "js_member JUndefined k = Inl TypeError"
| "js_member JNull k = Inl TypeError"
| "js_member (JObj kvs) k = Inr (case map_of kvs k of Some v \<Rightarrow> v | None \<Rightarrow> JUndefined)"
| "js_member _ k = Inr JUndefined"

text \<open>The same read where a guard has already excluded \<^verbatim>\<open>undefined\<close> and \<^verbatim>\<open>null\<close>.\<close>

definition js_field :: "jsval \<Rightarrow> string \<Rightarrow> jsval" where
  "js_field v k = (case v of JObj kvs \<Rightarrow> (case map_of kvs k of Some x \<Rightarrow> x | None \<Rightarrow> JUndefined)
               | _ \<Rightarrow> JUndefined)"

text \<open>\<^verbatim>\<open>v[0]\<close>, the first element of an array.\<close>

fun first_elem :: "jsval \<Rightarrow> js_error + jsval" where
  "first_elem JUndefined = Inl TypeError"
| "first_elem JNull = Inl TypeError"
| "first_elem (JArr xs) = Inr (case xs of [] \<Rightarrow> JUndefined | x # _ \<Rightarrow> x)"
| "first_elem (JObj kvs) = Inr (case map_of kvs ''0'' of Some v \<Rightarrow> v | None \<Rightarrow> JUndefined)"
| "first_elem (JStr s) = Inr (case s of [] \<Rightarrow> JUndefined | c # _ \<Rightarrow> JStr [c])"
| "first_elem (JBuffer bs) = Inr (case bs of [] \<Rightarrow> JUndefined | b # _ \<Rightarrow> JNum (uint b))"
| "first_elem _ = Inr JUndefined"

text \<open>
  \<^verbatim>\<open>o[k] = v\<close> on an object: an existing property keeps its place, a new one goes last.
\<close>

fun assign :: "(string \<times> jsval) list \<Rightarrow> string \<Rightarrow> jsval \<Rightarrow> (string \<times> jsval) list" where
  "assign [] k v = [(k, v)]"
| "assign ((k', v') # kvs) k v = (if k' = k then (k, v) # kvs else (k', v') # assign kvs k v)"

definition set_prop :: "jsval \<Rightarrow> string \<Rightarrow> jsval \<Rightarrow> jsval" where
  "set_prop obj k v = (case obj of JObj kvs \<Rightarrow> JObj (assign kvs k v) | _ \<Rightarrow> obj)"

section \<open>The vision client: content type of a buffer\<close>

text \<open>
  \<^verbatim>\<open>buffer.readUInt32BE()\<close> at offset 0: the first four bytes, most significant
  first; Node raises a \<^verbatim>\<open>RangeError\<close> when the buffer holds fewer than four bytes.
\<close>

fun readUInt32BE :: "8 word list \<Rightarrow> js_error + 32 word" where
  "readUInt32BE (b0 # b1 # b2 # b3 # _) =
     Inr (push_bit 24 (ucast b0) OR push_bit 16 (ucast b1) OR push_bit 8 (ucast b2) OR ucast b3)"
| "readUInt32BE _ = Inl RangeError"

text \<open>The \<^verbatim>\<open>switch\<close> on the signature; falling out of it returns \<^verbatim>\<open>undefined\<close>.\<close>

definition content_type_of_signature :: "32 word \<Rightarrow> string option" where
  "content_type_of_signature signature =
     (if signature = 0x504b0304 \<or> signature = 0x504b0506 \<or> signature = 0x504b0708
        then Some ''application/zip''
      else if signature = 0x89504e47
        then Some ''image/png''
      else if signature = 0xffd8ffe0 \<or> signature = 0xffd8ffe1 \<or> signature = 0xffd8ffe8
        then Some ''image/jpeg''
      else None)"

definition detectContentType :: "8 word list \<Rightarrow> js_error + string option" where
  "detectContentType buffer =
     (case readUInt32BE buffer of
        Inl e \<Rightarrow> Inl e
      | Inr signature \<Rightarrow> Inr (content_type_of_signature signature))"

section \<open>The vision client: parameter validation\<close>

text \<open>\<^verbatim>\<open>(a || b) && !(a && b)\<close>, with the operand-returning \<^verbatim>\<open>||\<close> and \<^verbatim>\<open>&&\<close> of JavaScript.\<close>

definition xor :: "jsval \<Rightarrow> jsval \<Rightarrow> jsval" where
  "xor a b = js_and (js_or a b) (js_not (js_and a b))"

definition image_param_message :: string where
  "image_param_message =
     ''Watson VisualRecognition.classify() requires either an images_file or a url parameter''"

text \<open>
  \<^verbatim>\<open>fixupImageParam\<close> mutates \<^verbatim>\<open>params\<close> in place; the model returns the mutated object,
  or the exception thrown. An exception of \<^verbatim>\<open>detectContentType\<close> leaves the function
  as it is raised.
\<close>

definition fixupImageParam :: "jsval \<Rightarrow> js_error + jsval" where
  "fixupImageParam params =
     (let params1 =
        (if truthy params \<and> truthy (js_field params ''image_file'')
              \<and> \<not> truthy (js_field params ''images_file'')
         then set_prop params ''images_file'' (js_field params ''image_file'')
         else params)
      in if \<not> truthy params1
            \<or> \<not> truthy (xor (js_field params1 ''images_file'') (js_field params1 ''url''))
         then Inl (Error image_param_message)
         else (case js_field params1 ''images_file'' of
                 JBuffer bytes \<Rightarrow>
                   (case detectContentType bytes of
                      Inl e \<Rightarrow> Inl e
                    | Inr ct \<Rightarrow>
                        Inr (set_prop params1 ''images_file''
                              (JObj [(''value'', JBuffer bytes),
                                     (''options'',
                                      JObj [(''contentType'',
                                             (case ct of Some t \<Rightarrow> JStr t | None \<Rightarrow> JUndefined))])])))
               | _ \<Rightarrow> Inr params1))"

section \<open>The vision client: building requests\<close>

text \<open>
  The argument handed to \<^verbatim>\<open>this.request\<close>: the request options, the names of the required
  parameters (empty where the source gives none) and the service's default options.
\<close>

record request_parameters =
  options :: jsval
  requiredParams :: "string list"
  defaultOptions :: jsval

text \<open>
  What a client method does with its callback: it either calls it with the exception it
  caught and returns, or hands the request to \<^verbatim>\<open>this.request\<close> together with the
  formatted callback.
\<close>

datatype outcome = CallbackError js_error | Request request_parameters

text \<open>
  \<^verbatim>\<open>pick(obj, keys)\<close> of the \<^verbatim>\<open>object.pick\<close> package: a new object with those of the
  keys that are in \<^verbatim>\<open>obj\<close>, assigned in the order of \<^verbatim>\<open>keys\<close>; the empty object when
  \<^verbatim>\<open>obj\<close> is no plain object.
\<close>

fun pick_keys ::
  "(string \<times> jsval) list \<Rightarrow> (string \<times> jsval) list \<Rightarrow> string list \<Rightarrow> (string \<times> jsval) list" where
  "pick_keys res obj [] = res"
| "pick_keys res obj (key # keys) =
     pick_keys (case map_of obj key of Some v \<Rightarrow> assign res key v | None \<Rightarrow> res) obj keys"

definition pick :: "jsval \<Rightarrow> string list \<Rightarrow> jsval" where
  "pick obj keys = (case obj of JObj kvs \<Rightarrow> JObj (pick_keys [] kvs keys) | _ \<Rightarrow> JObj [])"

text \<open>
  \<^verbatim>\<open>extend(target, source)\<close> of the \<^verbatim>\<open>extend\<close> package, shallow: every property of the
  source whose value is not \<^verbatim>\<open>undefined\<close> is assigned to the target.
\<close>

fun extend_into :: "(string \<times> jsval) list \<Rightarrow> (string \<times> jsval) list \<Rightarrow> (string \<times> jsval) list" where
  "extend_into target [] = target"
| "extend_into target ((name, copy) # rest) =
     extend_into (if copy \<noteq> JUndefined then assign target name copy else target) rest"

definition extend :: "(string \<times> jsval) list \<Rightarrow> jsval \<Rightarrow> jsval" where
  "extend target source =
     (case source of JObj kvs \<Rightarrow> JObj (extend_into target kvs) | _ \<Rightarrow> JObj target)"

definition classify :: "(jsval \<Rightarrow> string) \<Rightarrow> jsval \<Rightarrow> jsval \<Rightarrow> outcome" where
  "classify json_stringify this_options params0 =
     (case fixupImageParam params0 of
        Inl e \<Rightarrow> CallbackError e
      | Inr fixed \<Rightarrow>
          (let params =
                 extend [(''classifier_ids'', JArr [JStr ''default'']),
                         (''owners'', JArr [JStr ''me'', JStr ''IBM''])] fixed
           in if truthy (js_field params ''images_file'')
              then Request \<lparr>options =
                       JObj [(''url'', JStr ''/v3/classify''),
                             (''method'', JStr ''POST''),
                             (''formData'',
                              JObj [(''images_file'', js_field params ''images_file''),
                                    (''parameters'',
                                     JObj [(''value'',
                                            JStr (json_stringify
                                              (pick params [''classifier_ids'', ''owners'', ''threshold'']))),
                                           (''options'',
                                            JObj [(''contentType'', JStr ''application/json'')])])]),
                             (''headers'', pick params [''Accept-Language''])],
                     requiredParams = [],
                     defaultOptions = this_options\<rparr>
              else Request \<lparr>options =
                       JObj [(''url'', JStr ''/v3/classify''),
                             (''method'', JStr ''GET''),
                             (''json'', JBool True),
                             (''qs'', pick params [''url'', ''classifier_ids'', ''owners'', ''threshold'']),
                             (''headers'', pick params [''Accept-Language''])],
                     requiredParams = [],
                     defaultOptions = this_options\<rparr>))"

text \<open>\<^verbatim>\<open>detectFaces\<close> and \<^verbatim>\<open>recognizeText\<close> differ in the endpoint only.\<close>

definition image_request :: "string \<Rightarrow> jsval \<Rightarrow> jsval \<Rightarrow> outcome" where
  "image_request endpoint this_options params0 =
     (case fixupImageParam params0 of
        Inl e \<Rightarrow> CallbackError e
      | Inr params \<Rightarrow>
          (if truthy (js_field params ''images_file'')
           then Request \<lparr>options =
                    JObj [(''url'', JStr endpoint),
                          (''method'', JStr ''POST''),
                          (''json'', JBool True),
                          (''formData'', pick params [''images_file''])],
                  requiredParams = [],
                  defaultOptions = this_options\<rparr>
           else Request \<lparr>options =
                    JObj [(''url'', JStr endpoint),
                          (''method'', JStr ''GET''),
                          (''json'', JBool True),
                          (''qs'', pick params [''url''])],
                  requiredParams = [],
                  defaultOptions = this_options\<rparr>))"

definition detectFaces :: "jsval \<Rightarrow> jsval \<Rightarrow> outcome" where
  "detectFaces this_options params = image_request ''/v3/detect_faces'' this_options params"

definition recognizeText :: "jsval \<Rightarrow> jsval \<Rightarrow> outcome" where
  "recognizeText this_options params = image_request ''/v3/recognize_text'' this_options params"

section \<open>The vision client: formatting errors\<close>

text \<open>
  \<^verbatim>\<open>errorFormatter(cb)\<close> returns a function of \<^verbatim>\<open>(err, result)\<close>. The model gives the
  list of calls that function makes to \<^verbatim>\<open>cb\<close>, each a pair of arguments, or the exception
  it raises. When \<^verbatim>\<open>cb\<close> is no function a no-op stands in for it and \<^verbatim>\<open>cb\<close> is
  never called.
\<close>

definition errorFormatter :: "bool \<Rightarrow> jsval \<Rightarrow> jsval \<Rightarrow> js_error + (jsval \<times> jsval) list" where
  "errorFormatter cb_is_function err result =
     (let callback = (\<lambda>e r. if cb_is_function then [(e, r)] else [])
      in if truthy err then Inr (callback err result)
         else (case js_member result ''status'' of
                 Inl e \<Rightarrow> Inl e
               | Inr status \<Rightarrow>
                   if status = JStr ''ERROR''
                   then (case js_member result ''statusInfo'' of
                           Inl e \<Rightarrow> Inl e
                         | Inr statusInfo \<Rightarrow>
                             if statusInfo = JStr ''invalid-api-key''
                             then Inr (callback
                                        (JObj [(''error'', statusInfo),
                                               (''code'',
                                                if statusInfo = JStr ''invalid-api-key''
                                                then JNum 401 else JNum 400)])
                                        JNull)
                             else Inr [])
                   else Inr (callback err result)))"

section \<open>The vision client: creating a classifier\<close>

definition NEGATIVE_EXAMPLES :: string where
  "NEGATIVE_EXAMPLES = ''negative_examples''"

text \<open>
  The regular expression \<^verbatim>\<open>/^.+_positive_examples$/\<close>: the whole key is one or more
  characters other than a line terminator, followed by the literal suffix. A match is a
  place to split the key. (Of the four line terminators of JavaScript, line feed and
  carriage return are characters of the 8-bit strings used here.)
\<close>

definition line_terminator :: "char \<Rightarrow> bool" where
  "line_terminator c = (c = CHR 0x0A \<or> c = CHR 0x0D)"

definition matches_positive_examples :: "string \<Rightarrow> bool" where
  "matches_positive_examples key =
     list_ex (\<lambda>i. list_all (\<lambda>c. \<not> line_terminator c) (take i key)
                  \<and> drop i key = ''_positive_examples'')
             [1 ..< Suc (length key)]"

definition is_example_key :: "string \<Rightarrow> bool" where
  "is_example_key key = (key = NEGATIVE_EXAMPLES \<or> matches_positive_examples key)"

text \<open>
  \<^verbatim>\<open>Object.keys\<close>: the own property names of an object; the indices, in decimal, of an
  array or a string; nothing for the other values (it is never applied to
  \<^verbatim>\<open>undefined\<close> or \<^verbatim>\<open>null\<close> here).
\<close>

fun decimal :: "nat \<Rightarrow> string" where
  "decimal n =
     (if n < 10 then [char_of (48 + n)] else decimal (n div 10) @ [char_of (48 + n mod 10)])"

declare decimal.simps [simp del]

fun object_keys :: "jsval \<Rightarrow> string list" where
  "object_keys (JObj kvs) = map fst kvs"
| "object_keys (JArr xs) = map decimal [0 ..< length xs]"
| "object_keys (JStr s) = map decimal [0 ..< length s]"
| "object_keys (JBuffer bs) = map decimal [0 ..< length bs]"
| "object_keys _ = []"

definition missing_examples_message :: string where
  "missing_examples_message =
     ''Missing required parameters: either two *_positive_examples or one *_positive_examples and one negative_examples must be provided.''"

definition createClassifier :: "jsval \<Rightarrow> jsval \<Rightarrow> outcome" where
  "createClassifier this_options params0 =
     (let params = js_or params0 (JObj []);
          example_keys = filter is_example_key (object_keys params)
      in if length example_keys < 2
         then CallbackError (Error missing_examples_message)
         else (let allowed_keys = [''name'', NEGATIVE_EXAMPLES] @ example_keys
               in Request \<lparr>options =
                      JObj [(''url'', JStr ''/v3/classifiers''),
                            (''method'', JStr ''POST''),
                            (''json'', JBool True),
                            (''formData'', pick params allowed_keys)],
                    requiredParams = [''name''],
                    defaultOptions = this_options\<rparr>))"

section \<open>Fetching JSON\<close>

record http_response =
  body :: string
  statusCode :: int

text \<open>
  The function \<^verbatim>\<open>getJSON\<close> passes to \<^verbatim>\<open>phin\<close>, as the list of calls it makes to
  \<^verbatim>\<open>callback\<close> (each call the list of its arguments). The response is absent when
  \<^verbatim>\<open>phin\<close> hands none over. Everything the \<^verbatim>\<open>try\<close> block raises is caught and
  reported as a parse error: the exception of \<^verbatim>\<open>JSON.parse\<close>, and the \<^verbatim>\<open>TypeError\<close> of
  reading \<^verbatim>\<open>response.body\<close> when there is no response. Two parameters stand for the
  engine: \<^verbatim>\<open>JSON.parse\<close>, which gives the parsed value or the text of the exception it
  throws, and the text of that \<^verbatim>\<open>TypeError\<close>.
\<close>

definition getJSON_response ::
  "(string \<Rightarrow> string + jsval) \<Rightarrow> string \<Rightarrow> jsval \<Rightarrow> http_response option \<Rightarrow> jsval list list" where
  "getJSON_response json_parse type_error_text error response =
     (if truthy error then [[error]]
      else (case response of
              None \<Rightarrow> [[JStr (''Parse error: '' @ type_error_text)]]
            | Some r \<Rightarrow>
                (case json_parse (body r) of
                   Inl parseError \<Rightarrow> [[JStr (''Parse error: '' @ parseError)]]
                 | Inr parsed \<Rightarrow>
                     if statusCode r \<noteq> 200
                     then [[JStr ''Unexpected response code.'']]
                     else [[JNull, parsed]])))"

text \<open>\<^verbatim>\<open>phin\<close> is a parameter too: what the request to a URL comes back with.\<close>

definition getJSON ::
  "(string \<Rightarrow> string + jsval) \<Rightarrow> string \<Rightarrow> (string \<Rightarrow> jsval \<times> http_response option) \<Rightarrow> string
     \<Rightarrow> jsval list list" where
  "getJSON json_parse type_error_text phin url =
     (case phin url of
        (error, response) \<Rightarrow> getJSON_response json_parse type_error_text error response)"

section \<open>The bot: effects\<close>

record recognize_params =
  audio :: jsval
  content_type :: string
  model :: string

text \<open>
  What the bot does to the outside, in the order it does it. A download URL is kept in two
  parts, the constant prefix and the value appended to it.
\<close>

datatype effect =
    ReadFileSync string string
  | ConsoleLog jsval
  | GetJSON string
  | RequestGet string jsval
  | CreateWriteStream string
  | CreateReadStream string
  | Recognize recognize_params
  | Unlink string
  | Reply jsval

section \<open>The bot: configuration\<close>

text \<open>
  \<^verbatim>\<open>config.data\<close>. The file read and the YAML parser are parameters, each giving its
  value or the exception it throws. The result is what the call did and what it returned.
\<close>

definition data ::
  "(string \<Rightarrow> string \<Rightarrow> js_error + string) \<Rightarrow> (string \<Rightarrow> js_error + jsval) \<Rightarrow> effect list \<times> jsval" where
  "data readFileSync safeLoad =
     (case readFileSync ''config/config.yml'' ''utf8'' of
        Inl e \<Rightarrow> ([ReadFileSync ''config/config.yml'' ''utf8'', ConsoleLog (JErr e)], JStr ''error'')
      | Inr text \<Rightarrow>
          (case safeLoad text of
             Inl e \<Rightarrow> ([ReadFileSync ''config/config.yml'' ''utf8'', ConsoleLog (JErr e)], JStr ''error'')
           | Inr doc \<Rightarrow> ([ReadFileSync ''config/config.yml'' ''utf8''], doc)))"

record settings =
  BOT_TOKEN :: jsval
  WATSON_USERNAME :: jsval
  WATSON_PASSWORD :: jsval

text \<open>The top of the bot's module: the configuration is loaded and three of its keys read.\<close>

definition startup ::
  "(string \<Rightarrow> string \<Rightarrow> js_error + string) \<Rightarrow> (string \<Rightarrow> js_error + jsval)
     \<Rightarrow> effect list \<times> (js_error + settings)" where
  "startup readFileSync safeLoad =
     (case data readFileSync safeLoad of
        (trace, config_data) \<Rightarrow>
          (trace,
           (case js_member config_data ''TELEGRAM_BOT_TOKEN'' of
              Inl e \<Rightarrow> Inl e
            | Inr token \<Rightarrow>
                (case js_member config_data ''WATSON_USER'' of
                   Inl e \<Rightarrow> Inl e
                 | Inr user \<Rightarrow>
                     (case js_member config_data ''WATSON_PASSWORD'' of
                        Inl e \<Rightarrow> Inl e
                      | Inr password \<Rightarrow>
                          Inr \<lparr>BOT_TOKEN = token, WATSON_USERNAME = user,
                               WATSON_PASSWORD = password\<rparr>)))))"

section \<open>The bot: a voice message\<close>

text \<open>The two URL prefixes, from the text the bot token concatenates as.\<close>

definition BASE_URL_AUDIO_PATH :: "string \<Rightarrow> string" where
  "BASE_URL_AUDIO_PATH bot_token = ''https://api.telegram.org/bot'' @ bot_token @ ''/getFile?file_id=''"

definition BASE_URL_AUDIO_FILE :: "string \<Rightarrow> string" where
  "BASE_URL_AUDIO_FILE bot_token = ''http://api.telegram.org/file/bot'' @ bot_token @ ''/''"

text \<open>The handler of the voice event asks the platform where the file is.\<close>

definition on_voice :: "string \<Rightarrow> string \<Rightarrow> effect list" where
  "on_voice bot_token file_id = [GetJSON (BASE_URL_AUDIO_PATH bot_token @ file_id)]"

text \<open>
  The callback of that request reads \<^verbatim>\<open>response.result.file_path\<close>, sets
  \<^verbatim>\<open>local_file_path\<close>, starts the download and pipes it into a write stream. It returns
  its effects and the \<^verbatim>\<open>local_file_path\<close> the later callbacks close over.
\<close>

definition on_file_info :: "string \<Rightarrow> string \<Rightarrow> jsval \<Rightarrow> js_error + effect list \<times> string" where
  "on_file_info bot_token file_id response =
     (case js_member response ''result'' of
        Inl e \<Rightarrow> Inl e
      | Inr result \<Rightarrow>
          (case js_member result ''file_path'' of
             Inl e \<Rightarrow> Inl e
           | Inr file_path \<Rightarrow>
               (let local_file_path = file_id
                in Inr ([RequestGet (BASE_URL_AUDIO_FILE bot_token) file_path,
                         CreateWriteStream (file_id @ ''.ogg'')],
                        local_file_path))))"

text \<open>The handler of the download's \<^verbatim>\<open>end\<close> event.\<close>

definition on_download_end :: "string \<Rightarrow> string \<Rightarrow> effect list" where
  "on_download_end file_id local_file_path =
     [CreateReadStream (file_id @ ''.ogg''),
      Recognize \<lparr>audio = JStream (file_id @ ''.ogg''),
                 content_type = ''audio/ogg;codecs=opus'',
                 model = ''es-ES_BroadbandModel''\<rparr>,
      Unlink local_file_path]"

text \<open>The callback of the transcription: \<^verbatim>\<open>res.results[0].alternatives[0].transcript\<close>.\<close>

definition on_recognized :: "jsval \<Rightarrow> jsval \<Rightarrow> js_error + effect list" where
  "on_recognized err res =
     (if truthy err then Inr [ConsoleLog err]
      else (case js_member res ''results'' of
              Inl e \<Rightarrow> Inl e
            | Inr results \<Rightarrow>
                (case first_elem results of
                   Inl e \<Rightarrow> Inl e
                 | Inr result \<Rightarrow>
                     (case js_member result ''alternatives'' of
                        Inl e \<Rightarrow> Inl e
                      | Inr alternatives \<Rightarrow>
                          (case first_elem alternatives of
                             Inl e \<Rightarrow> Inl e
                           | Inr alternative \<Rightarrow>
                               (case js_member alternative ''transcript'' of
                                  Inl e \<Rightarrow> Inl e
                                | Inr transcript \<Rightarrow> Inr [Reply transcript]))))))"

text \<open>
  One voice message from the event to the last callback: the effects in order, and the
  exception that ended the chain, if one did. The download either ends or fails (its
  error handler is empty); the transcription comes back with \<^verbatim>\<open>(err, res)\<close>.
\<close>

datatype download = DownloadError | DownloadEnd

definition voice_message ::
  "string \<Rightarrow> string \<Rightarrow> jsval \<Rightarrow> download \<Rightarrow> jsval \<Rightarrow> jsval \<Rightarrow> effect list \<times> js_error option" where
  "voice_message bot_token file_id response download err res =
     (case on_file_info bot_token file_id response of
        Inl e \<Rightarrow> (on_voice bot_token file_id, Some e)
      | Inr (started, local_file_path) \<Rightarrow>
          (case download of
             DownloadError \<Rightarrow> (on_voice bot_token file_id @ started, None)
           | DownloadEnd \<Rightarrow>
               (case on_recognized err res of
                  Inl e \<Rightarrow>
                    (on_voice bot_token file_id @ started
                       @ on_download_end file_id local_file_path, Some e)
                | Inr answered \<Rightarrow>
                    (on_voice bot_token file_id @ started
                       @ on_download_end file_id local_file_path @ answered, None))))"

text \<open>
  The local files: a write stream creates its file, \<^verbatim>\<open>unlink\<close> removes the file at its
  path (and reports a missing one to its callback, which is empty).
\<close>

fun fs_step :: "string set \<Rightarrow> effect \<Rightarrow> string set" where
  "fs_step files (CreateWriteStream path) = insert path files"
| "fs_step files (Unlink path) = files - {path}"
| "fs_step files _ = files"

definition files_after :: "string set \<Rightarrow> effect list \<Rightarrow> string set" where
  "files_after files trace = foldl fs_step files trace"

text \<open>Projections of a trace.\<close>

fun replies :: "effect list \<Rightarrow> jsval list" where
  "replies [] = []"
| "replies (Reply v # es) = v # replies es"
| "replies (_ # es) = replies es"

fun written_paths :: "effect list \<Rightarrow> string list" where
  "written_paths [] = []"
| "written_paths (CreateWriteStream path # es) = path # written_paths es"
| "written_paths (_ # es) = written_paths es"

fun unlinked_paths :: "effect list \<Rightarrow> string list" where
  "unlinked_paths [] = []"
| "unlinked_paths (Unlink path # es) = path # unlinked_paths es"
| "unlinked_paths (_ # es) = unlinked_paths es"

fun recognitions :: "effect list \<Rightarrow> recognize_params list" where
  "recognitions [] = []"
| "recognitions (Recognize ps # es) = ps # recognitions es"
| "recognitions (_ # es) = recognitions es"

fun logged :: "effect list \<Rightarrow> jsval list" where
  "logged [] = []"
| "logged (ConsoleLog v # es) = v # logged es"
| "logged (_ # es) = logged es"

fun file_reads :: "effect list \<Rightarrow> string list" where
  "file_reads [] = []"
| "file_reads (ReadFileSync path enc # es) = path # file_reads es"
| "file_reads (_ # es) = file_reads es"

section \<open>The specification's vocabulary for the image parameters\<close>

text \<open>
  In the words of the specification: a call supplies an image when \<^verbatim>\<open>images_file\<close> or
  its alias \<^verbatim>\<open>image_file\<close> is truthy, a URL when \<^verbatim>\<open>url\<close> is truthy, and it is valid
  when it supplies exactly one of the two. The image itself is \<^verbatim>\<open>images_file\<close>, or the
  alias when \<^verbatim>\<open>images_file\<close> is falsy.
\<close>

definition supplies_image :: "jsval \<Rightarrow> bool" where
  "supplies_image params =
     (truthy (js_field params ''images_file'') \<or> truthy (js_field params ''image_file''))"

definition supplies_url :: "jsval \<Rightarrow> bool" where
  "supplies_url params = truthy (js_field params ''url'')"

definition exactly_one_source :: "jsval \<Rightarrow> bool" where
  "exactly_one_source params = (supplies_image params \<noteq> supplies_url params)"

definition image_value :: "jsval \<Rightarrow> jsval" where
  "image_value params = js_or (js_field params ''images_file'') (js_field params ''image_file'')"

section \<open>Properties of the content-type detection\<close>

lemma be32_as_sum:
  fixes b0 b1 b2 b3 :: "8 word"
  shows "(push_bit 24 (ucast b0) OR push_bit 16 (ucast b1) OR push_bit 8 (ucast b2) OR ucast b3 :: 32 word)
       = push_bit 24 (ucast b0) + (push_bit 16 (ucast b1) + (push_bit 8 (ucast b2) + ucast b3))"
proof -
  have 1: "push_bit 8 (ucast b2) + (ucast b3 :: 32 word) = push_bit 8 (ucast b2) OR ucast b3"
    by (rule disjunctive_add) (auto simp add: bit_simps dest: bit_imp_le_length)
  have 2: "push_bit 16 (ucast b1) + (push_bit 8 (ucast b2) OR ucast b3 :: 32 word)
         = push_bit 16 (ucast b1) OR (push_bit 8 (ucast b2) OR ucast b3)"
    by (rule disjunctive_add) (auto simp add: bit_simps dest: bit_imp_le_length)
  have 3: "push_bit 24 (ucast b0) + (push_bit 16 (ucast b1) OR (push_bit 8 (ucast b2) OR ucast b3) :: 32 word)
         = push_bit 24 (ucast b0) OR (push_bit 16 (ucast b1) OR (push_bit 8 (ucast b2) OR ucast b3))"
    by (rule disjunctive_add) (auto simp add: bit_simps dest: bit_imp_le_length)
  show ?thesis by (simp only: 1 2 3)
qed

lemma byte_bound: "unat (b :: 8 word) < 256"
  using unsigned_less [of b, where ?'a = nat] by simp

lemma be32_unat:
  fixes b0 b1 b2 b3 :: "8 word"
  shows "unat (push_bit 24 (ucast b0) OR push_bit 16 (ucast b1) OR push_bit 8 (ucast b2) OR ucast b3 :: 32 word)
   = unat b0 * 2^24 + unat b1 * 2^16 + unat b2 * 2^8 + unat b3"
proof -
  have u: "unat (ucast b :: 32 word) = unat b" for b :: "8 word"
    apply (simp add: unsigned_ucast_eq take_bit_nat_eq_self_iff)
    using byte_bound [of b] by simp
  note bs = byte_bound [of b0] byte_bound [of b1] byte_bound [of b2] byte_bound [of b3]
  show ?thesis
    unfolding be32_as_sum
    using bs
    by (simp add: unat_word_ariths push_bit_eq_mult u)
qed

lemma at_least_four:
  assumes "4 \<le> length xs"
  obtains a b c d rest where "xs = a # b # c # d # rest"
proof -
  from assms obtain a r1 where 1: "xs = a # r1" by (cases xs) auto
  with assms obtain b r2 where 2: "r1 = b # r2" by (cases r1) auto
  with 1 assms obtain c r3 where 3: "r2 = c # r3" by (cases r2) auto
  with 1 2 assms obtain d r4 where 4: "r3 = d # r4" by (cases r3) auto
  from 1 2 3 4 that show thesis by blast
qed

text \<open>
  C2, amended. A buffer of at least four bytes has a signature, the big-endian value of
  its first four bytes, and \<^verbatim>\<open>detectContentType\<close> returns the MIME type the table gives
  for it: zip for 0x504b0304, 0x504b0506 and 0x504b0708, png for 0x89504e47, jpeg for
  0xffd8ffe0, 0xffd8ffe1 and 0xffd8ffe8, and \<^verbatim>\<open>undefined\<close> for every other signature.
\<close>

theorem detectContentType_signature_table:
  assumes "4 \<le> length buffer"
  shows "\<exists>signature.
           readUInt32BE buffer = Inr signature
         \<and> unat signature = unat (buffer ! 0) * 2 ^ 24 + unat (buffer ! 1) * 2 ^ 16
                              + unat (buffer ! 2) * 2 ^ 8 + unat (buffer ! 3)
         \<and> detectContentType buffer =
             Inr (if signature \<in> {0x504b0304, 0x504b0506, 0x504b0708} then Some ''application/zip''
                  else if signature = 0x89504e47 then Some ''image/png''
                  else if signature \<in> {0xffd8ffe0, 0xffd8ffe1, 0xffd8ffe8} then Some ''image/jpeg''
                  else None)"
proof -
  from assms obtain a b c d rest where buffer: "buffer = a # b # c # d # rest"
    by (rule at_least_four)
  show ?thesis
    unfolding buffer
    by (simp add: detectContentType_def content_type_of_signature_def be32_unat)
qed

theorem detectContentType_signature_table_witness:
  "4 \<le> length [0x89, 0x50, 0x4e, 0x47, 0x0d :: 8 word]
   \<and> readUInt32BE [0x89, 0x50, 0x4e, 0x47, 0x0d] = Inr 0x89504e47
   \<and> detectContentType [0x89, 0x50, 0x4e, 0x47, 0x0d] = Inr (Some ''image/png'')"
  using detectContentType_signature_table [of "[0x89, 0x50, 0x4e, 0x47, 0x0d]"]
  by simp

text \<open>
  C2 as stated fails on a buffer of fewer than four bytes: the read of the signature
  raises and nothing is returned.
\<close>

theorem detectContentType_short_buffer_counterexample:
  "detectContentType [0x50, 0x4b, 0x03] = Inl RangeError"
  by (simp add: detectContentType_def)

section \<open>Properties of the parameter validation\<close>

lemma truthy_xor: "truthy (xor a b) = (truthy a \<noteq> truthy b)"
  by (auto simp: xor_def js_and_def js_or_def js_not_def)

lemma map_of_assign: "map_of (assign kvs k v) = (map_of kvs)(k \<mapsto> v)"
  by (induction kvs) auto

lemma js_field_set_prop_obj:
  "js_field (set_prop (JObj kvs) k v) k' = (if k' = k then v else js_field (JObj kvs) k')"
  by (simp add: js_field_def set_prop_def map_of_assign)

lemma truthy_set_prop: "truthy (set_prop p k v) = truthy p"
  by (cases p) (simp_all add: set_prop_def)

lemma js_field_truthy_obj: "truthy (js_field p k) \<Longrightarrow> \<exists>kvs. p = JObj kvs"
  by (cases p) (simp_all add: js_field_def)

lemma detectContentType_raises: "(\<exists>e. detectContentType bytes = Inl e) = (length bytes < 4)"
proof (cases "4 \<le> length bytes")
  case True
  then obtain a b c d rest where "bytes = a # b # c # d # rest" by (rule at_least_four)
  then show ?thesis by (simp add: detectContentType_def)
next
  case False
  then have "readUInt32BE bytes = Inl RangeError"
    by (cases bytes rule: readUInt32BE.cases) simp_all
  with False show ?thesis by (simp add: detectContentType_def)
qed


lemma fixupImageParam_invalid:
  assumes "\<not> truthy params \<or> \<not> exactly_one_source params"
  shows "fixupImageParam params = Inl (Error image_param_message)"
proof (cases "truthy params \<and> truthy (js_field params ''image_file'')
              \<and> \<not> truthy (js_field params ''images_file'')")
  case True
  then obtain kvs where p: "params = JObj kvs" using js_field_truthy_obj by blast
  from True assms have "\<not> exactly_one_source params" by blast
  with True have "truthy (js_field params ''url'')"
    by (simp add: exactly_one_source_def supplies_image_def supplies_url_def)
  with True show ?thesis
    unfolding p
    by (simp add: fixupImageParam_def Let_def truthy_xor js_field_set_prop_obj truthy_set_prop)
next
  case False
  with assms show ?thesis
    by (auto simp add: fixupImageParam_def Let_def truthy_xor exactly_one_source_def
          supplies_image_def supplies_url_def)
qed


lemma detectContentType_returns:
  "4 \<le> length bytes \<Longrightarrow> \<exists>ct. detectContentType bytes = Inr ct"
  using detectContentType_raises [of bytes] by (cases "detectContentType bytes") auto

lemma fixupImageParam_valid:
  assumes t: "truthy params" and one: "exactly_one_source params"
    and long: "\<forall>bytes. image_value params = JBuffer bytes \<longrightarrow> 4 \<le> length bytes"
  shows "\<exists>fixed. fixupImageParam params = Inr fixed"
proof (cases "truthy (js_field params ''image_file'') \<and> \<not> truthy (js_field params ''images_file'')")
  case True
  then obtain kvs where p: "params = JObj kvs" using js_field_truthy_obj by blast
  from True have iv: "image_value params = js_field params ''image_file''"
    by (simp add: image_value_def js_or_def)
  from True one have nourl: "\<not> truthy (js_field params ''url'')"
    by (simp add: exactly_one_source_def supplies_image_def supplies_url_def)
  show ?thesis
  proof (cases "js_field params ''image_file''")
    case (JBuffer bytes)
    with iv long have "4 \<le> length bytes" by simp
    then obtain ct where "detectContentType bytes = Inr ct"
      using detectContentType_returns by blast
    with True nourl JBuffer show ?thesis
      unfolding p
      by (simp add: fixupImageParam_def Let_def truthy_xor js_field_set_prop_obj truthy_set_prop)
  qed (use True nourl in \<open>simp_all add: p fixupImageParam_def Let_def truthy_xor
        js_field_set_prop_obj truthy_set_prop\<close>)
next
  case False
  from False one have x: "truthy (js_field params ''images_file'') \<noteq> truthy (js_field params ''url'')"
    by (auto simp add: exactly_one_source_def supplies_image_def supplies_url_def)
  show ?thesis
  proof (cases "js_field params ''images_file''")
    case (JBuffer bytes)
    then have "image_value params = JBuffer bytes"
      by (simp add: image_value_def js_or_def)
    with long have "4 \<le> length bytes" by simp
    then obtain ct where "detectContentType bytes = Inr ct"
      using detectContentType_returns by blast
    with False t x JBuffer show ?thesis
      by (simp add: fixupImageParam_def Let_def truthy_xor)
  qed (use False t x in \<open>auto simp add: fixupImageParam_def Let_def truthy_xor\<close>)
qed

lemma falsy_has_no_source: "\<not> truthy params \<Longrightarrow> \<not> exactly_one_source params"
  by (cases params)
     (simp_all add: exactly_one_source_def supplies_image_def supplies_url_def js_field_def)

lemma fixupImageParam_rejects_iff:
  assumes "\<forall>bytes. image_value params = JBuffer bytes \<longrightarrow> 4 \<le> length bytes"
  shows "(\<exists>e. fixupImageParam params = Inl e)
       = (params = JUndefined \<or> params = JNull \<or> \<not> exactly_one_source params)"
proof (cases "exactly_one_source params")
  case True
  then have t: "truthy params" using falsy_has_no_source by blast
  then have "params \<noteq> JUndefined" "params \<noteq> JNull" by auto
  moreover from t True assms obtain fixed where "fixupImageParam params = Inr fixed"
    using fixupImageParam_valid by blast
  ultimately show ?thesis using True by simp
next
  case False
  then show ?thesis using fixupImageParam_invalid [of params] by simp
qed

lemma classify_rejects: "(classify js opts params = CallbackError e) = (fixupImageParam params = Inl e)"
  by (simp add: classify_def Let_def split: sum.splits)

lemma image_request_rejects:
  "(image_request endpoint opts params = CallbackError e) = (fixupImageParam params = Inl e)"
  by (simp add: image_request_def split: sum.splits)

text \<open>
  C1, amended. Each of \<^verbatim>\<open>classify\<close>, \<^verbatim>\<open>detectFaces\<close> and \<^verbatim>\<open>recognizeText\<close> calls the
  callback with the validator's error, and hands no request on, whenever \<^verbatim>\<open>params\<close> is
  absent or does not hold exactly one of the image field (\<^verbatim>\<open>images_file\<close>, or its alias
  \<^verbatim>\<open>image_file\<close>) and \<^verbatim>\<open>url\<close>, by truthiness; and when the image is not a buffer of fewer
  than four bytes, these are the only calls that end in an error to the callback.
\<close>

theorem image_methods_reject_iff_invalid:
  "(params = JUndefined \<or> params = JNull \<or> \<not> exactly_one_source params \<longrightarrow>
        classify js opts params = CallbackError (Error image_param_message)
      \<and> detectFaces opts params = CallbackError (Error image_param_message)
      \<and> recognizeText opts params = CallbackError (Error image_param_message))
   \<and> ((\<forall>bytes. image_value params = JBuffer bytes \<longrightarrow> 4 \<le> length bytes) \<longrightarrow>
        ((\<exists>e. classify js opts params = CallbackError e)
           = (params = JUndefined \<or> params = JNull \<or> \<not> exactly_one_source params))
      \<and> ((\<exists>e. detectFaces opts params = CallbackError e)
           = (params = JUndefined \<or> params = JNull \<or> \<not> exactly_one_source params))
      \<and> ((\<exists>e. recognizeText opts params = CallbackError e)
           = (params = JUndefined \<or> params = JNull \<or> \<not> exactly_one_source params)))"
proof (intro conjI impI)
  assume invalid: "params = JUndefined \<or> params = JNull \<or> \<not> exactly_one_source params"
  then have "\<not> truthy params \<or> \<not> exactly_one_source params" by auto
  then have r: "fixupImageParam params = Inl (Error image_param_message)"
    by (rule fixupImageParam_invalid)
  from r show "classify js opts params = CallbackError (Error image_param_message)"
    by (simp add: classify_rejects)
  from r show "detectFaces opts params = CallbackError (Error image_param_message)"
    by (simp add: detectFaces_def image_request_rejects)
  from r show "recognizeText opts params = CallbackError (Error image_param_message)"
    by (simp add: recognizeText_def image_request_rejects)
next
  assume long: "\<forall>bytes. image_value params = JBuffer bytes \<longrightarrow> 4 \<le> length bytes"
  note iff = fixupImageParam_rejects_iff [OF long]
  show "(\<exists>e. classify js opts params = CallbackError e)
      = (params = JUndefined \<or> params = JNull \<or> \<not> exactly_one_source params)"
    unfolding classify_rejects by (rule iff)
  show "(\<exists>e. detectFaces opts params = CallbackError e)
      = (params = JUndefined \<or> params = JNull \<or> \<not> exactly_one_source params)"
    unfolding detectFaces_def image_request_rejects by (rule iff)
  show "(\<exists>e. recognizeText opts params = CallbackError e)
      = (params = JUndefined \<or> params = JNull \<or> \<not> exactly_one_source params)"
    unfolding recognizeText_def image_request_rejects by (rule iff)
qed

theorem image_methods_reject_iff_invalid_witness:
  "\<not> exactly_one_source (JObj [(''images_file'', JStream ''cat.png''), (''url'', JStr ''http://example.org/cat.png'')])
   \<and> image_value (JObj [(''images_file'', JStream ''cat.png''), (''url'', JStr ''http://example.org/cat.png'')])
       = JStream ''cat.png''
   \<and> detectFaces (JObj []) (JObj [(''images_file'', JStream ''cat.png''), (''url'', JStr ''http://example.org/cat.png'')])
       = CallbackError (Error image_param_message)
   \<and> recognizeText (JObj []) (JObj [(''images_file'', JStream ''cat.png''), (''url'', JStr ''http://example.org/cat.png'')])
       = CallbackError (Error image_param_message)"
  using image_methods_reject_iff_invalid
    [where params = "JObj [(''images_file'', JStream ''cat.png''), (''url'', JStr ''http://example.org/cat.png'')]"
       and opts = "JObj []"]
  by (simp add: exactly_one_source_def supplies_image_def supplies_url_def image_value_def
        js_field_def js_or_def)

text \<open>
  C1 as stated fails: a call with an image buffer of two bytes and no URL holds exactly one
  of the two fields, and still ends in an error to the callback, the one raised while
  the content type of the buffer is read.
\<close>

theorem short_image_buffer_rejected_counterexample:
  "exactly_one_source (JObj [(''images_file'', JBuffer [1, 2])])
   \<and> detectFaces (JObj []) (JObj [(''images_file'', JBuffer [1, 2])]) = CallbackError RangeError"
  by (simp add: exactly_one_source_def supplies_image_def supplies_url_def js_field_def
        detectFaces_def image_request_def fixupImageParam_def xor_def js_or_def js_and_def
        js_not_def detectContentType_def)

section \<open>Properties of the error formatter\<close>

lemma js_member_raises:
  "(js_member v k = Inl e) = (e = TypeError \<and> (v = JUndefined \<or> v = JNull))"
  by (cases v) auto

lemma js_member_returns: "js_member v k = Inr x \<Longrightarrow> js_member v k' \<noteq> Inl e"
  by (cases v) auto

text \<open>
  C8. The function \<^verbatim>\<open>errorFormatter\<close> returns makes no call to the wrapped callback when
  there is no transport error and the result has status \<^verbatim>\<open>ERROR\<close> with a
  \<^verbatim>\<open>statusInfo\<close> other than \<^verbatim>\<open>invalid-api-key\<close>. The callback is called only for a
  transport error (with the arguments unchanged), for \<^verbatim>\<open>invalid-api-key\<close> (with an error
  object of code 401 and \<^verbatim>\<open>null\<close>), or for a result whose status is not \<^verbatim>\<open>ERROR\<close>
  (with the arguments unchanged), and in each of these it is called once.
\<close>

theorem errorFormatter_swallows_other_errors:
  "(\<not> truthy err \<and> js_member result ''status'' = Inr (JStr ''ERROR'')
      \<and> js_member result ''statusInfo'' \<noteq> Inr (JStr ''invalid-api-key'')
      \<longrightarrow> errorFormatter cb err result = Inr [])
   \<and> (truthy err \<longrightarrow> errorFormatter True err result = Inr [(err, result)])
   \<and> (\<not> truthy err \<and> js_member result ''status'' = Inr (JStr ''ERROR'')
      \<and> js_member result ''statusInfo'' = Inr (JStr ''invalid-api-key'')
      \<longrightarrow> errorFormatter True err result
            = Inr [(JObj [(''error'', JStr ''invalid-api-key''), (''code'', JNum 401)], JNull)])
   \<and> (\<not> truthy err \<and> (\<exists>status. js_member result ''status'' = Inr status \<and> status \<noteq> JStr ''ERROR'')
      \<longrightarrow> errorFormatter True err result = Inr [(err, result)])
   \<and> (\<forall>calls. errorFormatter cb err result = Inr calls \<and> calls \<noteq> [] \<longrightarrow>
          truthy err
        \<or> (js_member result ''status'' = Inr (JStr ''ERROR'')
            \<and> js_member result ''statusInfo'' = Inr (JStr ''invalid-api-key''))
        \<or> (\<exists>status. js_member result ''status'' = Inr status \<and> status \<noteq> JStr ''ERROR''))"
proof (intro conjI impI allI)
  assume "\<not> truthy err \<and> js_member result ''status'' = Inr (JStr ''ERROR'')
      \<and> js_member result ''statusInfo'' \<noteq> Inr (JStr ''invalid-api-key'')"
  then show "errorFormatter cb err result = Inr []"
    by (cases "js_member result ''statusInfo''")
       (auto simp add: errorFormatter_def dest: js_member_returns)
next
  assume "truthy err"
  then show "errorFormatter True err result = Inr [(err, result)]"
    by (simp add: errorFormatter_def)
next
  assume "\<not> truthy err \<and> js_member result ''status'' = Inr (JStr ''ERROR'')
      \<and> js_member result ''statusInfo'' = Inr (JStr ''invalid-api-key'')"
  then show "errorFormatter True err result
            = Inr [(JObj [(''error'', JStr ''invalid-api-key''), (''code'', JNum 401)], JNull)]"
    by (simp add: errorFormatter_def)
next
  assume "\<not> truthy err \<and> (\<exists>status. js_member result ''status'' = Inr status \<and> status \<noteq> JStr ''ERROR'')"
  then show "errorFormatter True err result = Inr [(err, result)]"
    by (auto simp add: errorFormatter_def)
next
  fix calls
  assume "errorFormatter cb err result = Inr calls \<and> calls \<noteq> []"
  then show "truthy err
        \<or> (js_member result ''status'' = Inr (JStr ''ERROR'')
            \<and> js_member result ''statusInfo'' = Inr (JStr ''invalid-api-key''))
        \<or> (\<exists>status. js_member result ''status'' = Inr status \<and> status \<noteq> JStr ''ERROR'')"
    by (auto simp add: errorFormatter_def Let_def split: if_splits sum.splits)
qed

theorem errorFormatter_swallows_other_errors_witness:
  "errorFormatter True JNull
     (JObj [(''status'', JStr ''ERROR''), (''statusInfo'', JStr ''daily-transaction-limit-exceeded'')])
     = Inr []
   \<and> errorFormatter True (JErr (LibraryError ''ECONNRESET'')) JUndefined
     = Inr [(JErr (LibraryError ''ECONNRESET''), JUndefined)]
   \<and> errorFormatter True JNull
     (JObj [(''status'', JStr ''ERROR''), (''statusInfo'', JStr ''invalid-api-key'')])
     = Inr [(JObj [(''error'', JStr ''invalid-api-key''), (''code'', JNum 401)], JNull)]
   \<and> errorFormatter True JNull (JObj [(''status'', JStr ''OK'')])
     = Inr [(JNull, JObj [(''status'', JStr ''OK'')])]"
  using
    errorFormatter_swallows_other_errors
      [of JNull "JObj [(''status'', JStr ''ERROR''), (''statusInfo'', JStr ''daily-transaction-limit-exceeded'')]" True]
    errorFormatter_swallows_other_errors
      [of "JErr (LibraryError ''ECONNRESET'')" JUndefined True]
    errorFormatter_swallows_other_errors
      [of JNull "JObj [(''status'', JStr ''ERROR''), (''statusInfo'', JStr ''invalid-api-key'')]" True]
    errorFormatter_swallows_other_errors
      [of JNull "JObj [(''status'', JStr ''OK'')]" True]
  by simp

section \<open>Properties of the JSON fetch\<close>

text \<open>
  C9. Whatever the request comes back with, \<^verbatim>\<open>getJSON\<close> calls its callback exactly
  once, and parses the body before it looks at the status code: with a transport error
  the call is \<^verbatim>\<open>callback(error)\<close>, with or without a response; with a body that does not
  parse it is \<^verbatim>\<open>callback("Parse error: ...")\<close>, whatever the status code (and so it is
  when there is neither an error nor a response); with a body that parses and a status
  code other than 200 it is \<^verbatim>\<open>callback("Unexpected response code.")\<close>; and it is
  \<^verbatim>\<open>callback(null, parsedBody)\<close> exactly when there is no transport error, the body parses
  and the status code is 200.
\<close>

theorem getJSON_calls_back_once:
  "(\<exists>args. getJSON json_parse type_error_text phin url = [args])
   \<and> (truthy (fst (phin url)) \<longrightarrow>
        getJSON json_parse type_error_text phin url = [[fst (phin url)]])
   \<and> (\<not> truthy (fst (phin url)) \<and> snd (phin url) = None \<longrightarrow>
        getJSON json_parse type_error_text phin url
          = [[JStr (''Parse error: '' @ type_error_text)]])
   \<and> (\<forall>r parseError.
          \<not> truthy (fst (phin url)) \<and> snd (phin url) = Some r
          \<and> json_parse (body r) = Inl parseError \<longrightarrow>
          getJSON json_parse type_error_text phin url
            = [[JStr (''Parse error: '' @ parseError)]])
   \<and> (\<forall>r parsed.
          \<not> truthy (fst (phin url)) \<and> snd (phin url) = Some r
          \<and> json_parse (body r) = Inr parsed \<and> statusCode r \<noteq> 200 \<longrightarrow>
          getJSON json_parse type_error_text phin url = [[JStr ''Unexpected response code.'']])
   \<and> (\<forall>parsed.
          (getJSON json_parse type_error_text phin url = [[JNull, parsed]])
          = (\<not> truthy (fst (phin url))
             \<and> (\<exists>r. snd (phin url) = Some r \<and> json_parse (body r) = Inr parsed
                      \<and> statusCode r = 200)))"
proof -
  obtain error response where p: "phin url = (error, response)"
    by (cases "phin url")
  have g: "getJSON json_parse type_error_text phin url
             = getJSON_response json_parse type_error_text error response"
    by (simp add: getJSON_def p)
  show ?thesis
  proof (cases response)
    case None
    then show ?thesis
      unfolding g p by (auto simp add: getJSON_response_def)
  next
    case (Some r)
    then show ?thesis
      unfolding g p
      by (cases "json_parse (body r)") (auto simp add: getJSON_response_def)
  qed
qed

theorem getJSON_calls_back_once_witness:
  "getJSON (\<lambda>text. Inl ''SyntaxError: Unexpected token < in JSON at position 0'')
           ''TypeError: Cannot read property body of undefined''
           (\<lambda>url. (JNull, Some \<lparr>body = ''<html>'', statusCode = 404\<rparr>)) ''http://example.org/''
     = [[JStr ''Parse error: SyntaxError: Unexpected token < in JSON at position 0'']]
   \<and> getJSON (\<lambda>text. Inr (JArr [JBool True]))
           ''TypeError: Cannot read property body of undefined''
           (\<lambda>url. (JNull, Some \<lparr>body = ''[true]'', statusCode = 500\<rparr>)) ''http://example.org/''
     = [[JStr ''Unexpected response code.'']]
   \<and> getJSON (\<lambda>text. Inr (JArr [JBool True]))
           ''TypeError: Cannot read property body of undefined''
           (\<lambda>url. (JErr (LibraryError ''ETIMEDOUT''), None)) ''http://example.org/''
     = [[JErr (LibraryError ''ETIMEDOUT'')]]
   \<and> getJSON (\<lambda>text. Inr (JArr [JBool True]))
           ''TypeError: Cannot read property body of undefined''
           (\<lambda>url. (JNull, None)) ''http://example.org/''
     = [[JStr ''Parse error: TypeError: Cannot read property body of undefined'']]
   \<and> getJSON (\<lambda>text. Inr (JArr [JBool True]))
           ''TypeError: Cannot read property body of undefined''
           (\<lambda>url. (JNull, Some \<lparr>body = ''[true]'', statusCode = 200\<rparr>)) ''http://example.org/''
     = [[JNull, JArr [JBool True]]]"
  using
    getJSON_calls_back_once
      [of "\<lambda>text. Inl ''SyntaxError: Unexpected token < in JSON at position 0''"
          "''TypeError: Cannot read property body of undefined''"
          "\<lambda>url. (JNull, Some \<lparr>body = ''<html>'', statusCode = 404\<rparr>)" "''http://example.org/''"]
    getJSON_calls_back_once
      [of "\<lambda>text. Inr (JArr [JBool True])"
          "''TypeError: Cannot read property body of undefined''"
          "\<lambda>url. (JNull, Some \<lparr>body = ''[true]'', statusCode = 500\<rparr>)" "''http://example.org/''"]
    getJSON_calls_back_once
      [of "\<lambda>text. Inr (JArr [JBool True])"
          "''TypeError: Cannot read property body of undefined''"
          "\<lambda>url. (JErr (LibraryError ''ETIMEDOUT''), None)" "''http://example.org/''"]
    getJSON_calls_back_once
      [of "\<lambda>text. Inr (JArr [JBool True])"
          "''TypeError: Cannot read property body of undefined''"
          "\<lambda>url. (JNull, None)" "''http://example.org/''"]
    getJSON_calls_back_once
      [of "\<lambda>text. Inr (JArr [JBool True])"
          "''TypeError: Cannot read property body of undefined''"
          "\<lambda>url. (JNull, Some \<lparr>body = ''[true]'', statusCode = 200\<rparr>)" "''http://example.org/''"]
  by simp

section \<open>Properties of the classifier creation\<close>

lemma split_before_suffix:
  "list_ex (\<lambda>i. list_all P (take i key) \<and> drop i key = suffix) [1 ..< Suc (length key)]
   = (\<exists>name. name \<noteq> [] \<and> (\<forall>c \<in> set name. P c) \<and> key = name @ suffix)"
proof
  assume "list_ex (\<lambda>i. list_all P (take i key) \<and> drop i key = suffix) [1 ..< Suc (length key)]"
  then obtain i where i: "1 \<le> i" "i \<le> length key"
      and dots: "list_all P (take i key)"
      and suffix: "drop i key = suffix"
    by (auto simp add: list_ex_iff)
  have "key = take i key @ suffix"
    using suffix append_take_drop_id [of i key] by simp
  moreover have "take i key \<noteq> []" using i by auto
  moreover have "\<forall>c \<in> set (take i key). P c"
    using dots by (simp add: list_all_iff)
  ultimately show "\<exists>name. name \<noteq> [] \<and> (\<forall>c \<in> set name. P c) \<and> key = name @ suffix"
    by blast
next
  assume "\<exists>name. name \<noteq> [] \<and> (\<forall>c \<in> set name. P c) \<and> key = name @ suffix"
  then obtain name where name: "name \<noteq> []" "\<forall>c \<in> set name. P c"
      and key: "key = name @ suffix"
    by blast
  have "1 \<le> length name" using name(1) by (cases name) simp_all
  moreover have "length name \<le> length key" using key by simp
  ultimately have "length name \<in> set [1 ..< Suc (length key)]"
    by (simp only: set_upt atLeastLessThan_iff less_Suc_eq_le)
  moreover have "list_all P (take (length name) key)"
    using name(2) key by (simp add: list_all_iff)
  moreover have "drop (length name) key = suffix"
    using key by simp
  ultimately show "list_ex (\<lambda>i. list_all P (take i key) \<and> drop i key = suffix) [1 ..< Suc (length key)]"
    unfolding list_ex_iff by blast
qed

lemma matches_positive_examples_iff:
  "matches_positive_examples key
   = (\<exists>name. name \<noteq> [] \<and> (\<forall>c \<in> set name. c \<noteq> CHR 0x0A \<and> c \<noteq> CHR 0x0D)
         \<and> key = name @ ''_positive_examples'')"
  unfolding matches_positive_examples_def split_before_suffix line_terminator_def de_Morgan_disj
  by (rule refl)

lemma underscore_in_suffix: "CHR ''_'' \<in> set (name @ ''_positive_examples'')"
  by simp

lemma underscore_in_negative: "CHR ''_'' \<in> set NEGATIVE_EXAMPLES"
  by (simp add: NEGATIVE_EXAMPLES_def)

lemma example_key_has_underscore:
  assumes "is_example_key key"
  shows "CHR ''_'' \<in> set key"
proof (cases "key = NEGATIVE_EXAMPLES")
  case True
  then show ?thesis using underscore_in_negative by simp
next
  case False
  with assms have "matches_positive_examples key" by (simp add: is_example_key_def)
  then obtain name where "key = name @ ''_positive_examples''"
    unfolding matches_positive_examples_iff by blast
  then show ?thesis using underscore_in_suffix by simp
qed

lemma digit_char:
  assumes "(n::nat) < 10"
  shows "char_of (48 + n) \<noteq> CHR ''_''"
proof
  assume "char_of (48 + n) = CHR ''_''"
  then have "(of_char (char_of (48 + n)) :: nat) = of_char (CHR ''_'')" by simp
  then have "(48 + n) mod 256 = 95" by (simp add: of_char_of)
  with assms show False by simp
qed

lemma decimal_no_underscore: "CHR ''_'' \<notin> set (decimal n)"
proof (induction n rule: decimal.induct)
  case (1 n)
  show ?case
  proof (cases "n < 10")
    case True
    then show ?thesis using digit_char [of n] by (subst decimal.simps) simp
  next
    case False
    have "n mod 10 < 10" by simp
    then have "char_of (48 + n mod 10) \<noteq> CHR ''_''" by (rule digit_char)
    with False 1 show ?thesis by (subst decimal.simps) simp
  qed
qed

lemma index_keys_no_examples: "filter is_example_key (map decimal ns) = []"
  using decimal_no_underscore example_key_has_underscore by (auto simp add: filter_empty_conv)

lemma example_keys_need_object:
  assumes "2 \<le> length (filter is_example_key (object_keys params))"
  obtains kvs where "params = JObj kvs"
  using assms by (cases params) (simp_all add: index_keys_no_examples)

lemma map_of_pick_keys:
  "map_of (pick_keys res obj keys) key
   = (if key \<in> set keys \<and> map_of obj key \<noteq> None then map_of obj key else map_of res key)"
  by (induction keys arbitrary: res) (auto simp add: map_of_assign split: option.splits)

lemma keys_pick_keys:
  "fst ` set (pick_keys res obj keys) = fst ` set res \<union> (set keys \<inter> fst ` set obj)"
proof -
  have "dom (map_of (pick_keys res obj keys)) = dom (map_of res) \<union> (set keys \<inter> dom (map_of obj))"
    by (auto simp add: map_of_pick_keys dom_def split: if_splits)
  then show ?thesis by (simp add: dom_map_of_conv_image_fst)
qed

lemma js_field_pick:
  "js_field (pick (JObj kvs) keys) key
   = (if key \<in> set keys then js_field (JObj kvs) key else JUndefined)"
  by (auto simp add: js_field_def pick_def map_of_pick_keys split: option.splits)

lemma object_keys_pick:
  "set (object_keys (pick (JObj kvs) keys)) = set keys \<inter> set (object_keys (JObj kvs))"
  by (simp add: pick_def keys_pick_keys)

lemma negative_examples_is_example_key: "is_example_key NEGATIVE_EXAMPLES"
  by (simp add: is_example_key_def)

lemma createClassifier_few:
  assumes "length (filter is_example_key (object_keys (js_or params (JObj [])))) < 2"
  shows "createClassifier opts params = CallbackError (Error missing_examples_message)"
  using assms by (simp add: createClassifier_def Let_def)

lemma createClassifier_enough:
  assumes "2 \<le> length (filter is_example_key (object_keys (js_or params (JObj []))))"
  shows "\<exists>formData.
           createClassifier opts params
             = Request \<lparr>options = JObj [(''url'', JStr ''/v3/classifiers''),
                                        (''method'', JStr ''POST''),
                                        (''json'', JBool True),
                                        (''formData'', formData)],
                        requiredParams = [''name''],
                        defaultOptions = opts\<rparr>
         \<and> set (object_keys formData)
             = {key \<in> set (object_keys params). key = ''name'' \<or> is_example_key key}
         \<and> (\<forall>key. js_field formData key
                    = (if key = ''name'' \<or> is_example_key key then js_field params key
                       else JUndefined))"
proof -
  have t: "truthy params"
  proof (rule ccontr)
    assume "\<not> truthy params"
    then have "js_or params (JObj []) = JObj []" by (simp add: js_or_def)
    with assms show False by simp
  qed
  then have same: "js_or params (JObj []) = params" by (simp add: js_or_def)
  with assms obtain kvs where p: "params = JObj kvs"
    using example_keys_need_object [of params] by auto
  let ?keys = "[''name'', NEGATIVE_EXAMPLES] @ filter is_example_key (object_keys params)"
  have c: "createClassifier opts params
             = Request \<lparr>options = JObj [(''url'', JStr ''/v3/classifiers''),
                                        (''method'', JStr ''POST''),
                                        (''json'', JBool True),
                                        (''formData'', pick params ?keys)],
                        requiredParams = [''name''],
                        defaultOptions = opts\<rparr>"
    using assms by (simp add: createClassifier_def Let_def same)
  have k: "set (object_keys (pick params ?keys))
             = {key \<in> set (object_keys params). key = ''name'' \<or> is_example_key key}"
    unfolding p object_keys_pick
    using negative_examples_is_example_key by auto
  have f: "js_field (pick params ?keys) key
             = (if key = ''name'' \<or> is_example_key key then js_field params key else JUndefined)"
    for key
  proof (cases "key \<in> set ?keys")
    case True
    then have "key = ''name'' \<or> is_example_key key"
      using negative_examples_is_example_key by auto
    with True show ?thesis unfolding p js_field_pick by simp
  next
    case False
    then have "key \<noteq> ''name''" and "is_example_key key \<Longrightarrow> key \<notin> set (object_keys params)"
      by auto
    then have "key = ''name'' \<or> is_example_key key \<Longrightarrow> js_field params key = JUndefined"
      unfolding p
      by (cases "map_of kvs key") (force simp add: js_field_def dest: map_of_SomeD)+
    with False show ?thesis unfolding p js_field_pick by auto
  qed
  from c k f show ?thesis by blast
qed

text \<open>
  C10. \<^verbatim>\<open>createClassifier\<close> calls the callback with an error, and hands no request on,
  unless \<^verbatim>\<open>params\<close> has at least two keys that are \<^verbatim>\<open>negative_examples\<close> or match
  \<^verbatim>\<open><name>_positive_examples\<close> (a non-empty name without line breaks); with two or more
  such keys the form data of the request holds exactly the fields of \<^verbatim>\<open>params\<close> named
  \<^verbatim>\<open>name\<close>, \<^verbatim>\<open>negative_examples\<close> or by a matched key, with their values, and no other.
\<close>

theorem createClassifier_needs_two_example_keys:
  "(length (filter is_example_key (object_keys (js_or params (JObj [])))) < 2 \<longrightarrow>
      createClassifier opts params = CallbackError (Error missing_examples_message))
   \<and> (2 \<le> length (filter is_example_key (object_keys (js_or params (JObj [])))) \<longrightarrow>
        (\<exists>formData.
           createClassifier opts params
             = Request \<lparr>options = JObj [(''url'', JStr ''/v3/classifiers''),
                                        (''method'', JStr ''POST''),
                                        (''json'', JBool True),
                                        (''formData'', formData)],
                        requiredParams = [''name''],
                        defaultOptions = opts\<rparr>
         \<and> set (object_keys formData)
             = {key \<in> set (object_keys params). key = ''name'' \<or> is_example_key key}
         \<and> (\<forall>key. js_field formData key
                    = (if key = ''name'' \<or> is_example_key key then js_field params key
                       else JUndefined))))
   \<and> (\<forall>key. is_example_key key
          = (key = ''negative_examples''
             \<or> (\<exists>name. name \<noteq> [] \<and> (\<forall>c \<in> set name. c \<noteq> CHR 0x0A \<and> c \<noteq> CHR 0x0D)
                   \<and> key = name @ ''_positive_examples'')))"
proof (intro conjI impI allI)
  fix key
  show "is_example_key key
          = (key = ''negative_examples''
             \<or> (\<exists>name. name \<noteq> [] \<and> (\<forall>c \<in> set name. c \<noteq> CHR 0x0A \<and> c \<noteq> CHR 0x0D)
                   \<and> key = name @ ''_positive_examples''))"
    by (simp only: is_example_key_def NEGATIVE_EXAMPLES_def matches_positive_examples_iff)
qed (erule createClassifier_few, erule createClassifier_enough)

theorem createClassifier_needs_two_example_keys_witness:
  "length (filter is_example_key (object_keys (js_or
      (JObj [(''name'', JStr ''pets''), (''cat_positive_examples'', JStream ''cats.zip'')])
      (JObj [])))) < 2
   \<and> createClassifier (JObj [])
        (JObj [(''name'', JStr ''pets''), (''cat_positive_examples'', JStream ''cats.zip'')])
       = CallbackError (Error missing_examples_message)
   \<and> 2 \<le> length (filter is_example_key (object_keys (js_or
      (JObj [(''name'', JStr ''pets''), (''cat_positive_examples'', JStream ''cats.zip''),
             (''owner'', JStr ''me''), (''negative_examples'', JStream ''other.zip'')])
      (JObj []))))
   \<and> (\<exists>formData.
         createClassifier (JObj [])
           (JObj [(''name'', JStr ''pets''), (''cat_positive_examples'', JStream ''cats.zip''),
                  (''owner'', JStr ''me''), (''negative_examples'', JStream ''other.zip'')])
           = Request \<lparr>options = JObj [(''url'', JStr ''/v3/classifiers''),
                                      (''method'', JStr ''POST''),
                                      (''json'', JBool True),
                                      (''formData'', formData)],
                      requiredParams = [''name''],
                      defaultOptions = JObj []\<rparr>
         \<and> js_field formData ''owner'' = JUndefined
         \<and> js_field formData ''name'' = JStr ''pets'')"
proof -
  let ?one = "JObj [(''name'', JStr ''pets''), (''cat_positive_examples'', JStream ''cats.zip'')]"
  let ?two = "JObj [(''name'', JStr ''pets''), (''cat_positive_examples'', JStream ''cats.zip''),
                    (''owner'', JStr ''me''), (''negative_examples'', JStream ''other.zip'')]"
  have few: "length (filter is_example_key (object_keys (js_or ?one (JObj [])))) < 2"
    by code_simp
  have enough: "2 \<le> length (filter is_example_key (object_keys (js_or ?two (JObj []))))"
    by code_simp
  have owner: "\<not> is_example_key ''owner''"
    by code_simp
  note one = createClassifier_needs_two_example_keys [of ?one "JObj []"]
  note two = createClassifier_needs_two_example_keys [of ?two "JObj []"]
  from one few have r1: "createClassifier (JObj []) ?one = CallbackError (Error missing_examples_message)"
    by blast
  from two enough obtain formData where
      req: "createClassifier (JObj []) ?two
              = Request \<lparr>options = JObj [(''url'', JStr ''/v3/classifiers''),
                                         (''method'', JStr ''POST''),
                                         (''json'', JBool True),
                                         (''formData'', formData)],
                         requiredParams = [''name''],
                         defaultOptions = JObj []\<rparr>"
      and fields: "\<forall>key. js_field formData key
                    = (if key = ''name'' \<or> is_example_key key then js_field ?two key
                       else JUndefined)"
    by blast
  from fields owner have "js_field formData ''owner'' = JUndefined" by simp
  moreover from fields have "js_field formData ''name'' = JStr ''pets''"
    by (simp add: js_field_def)
  ultimately show ?thesis using few enough r1 req by blast
qed

section \<open>Properties of the voice message handler\<close>

lemma on_file_info_result:
  assumes "on_file_info bot_token file_id response = Inr (started, local_file_path)"
  shows "local_file_path = file_id"
    and "\<exists>file_path. started = [RequestGet (BASE_URL_AUDIO_FILE bot_token) file_path,
                                   CreateWriteStream (file_id @ ''.ogg'')]"
  using assms by (auto simp add: on_file_info_def Let_def split: sum.splits)

lemma on_recognized_result:
  assumes "on_recognized err res = Inr answered"
  shows "(truthy err \<and> answered = [ConsoleLog err]) \<or> (\<not> truthy err \<and> (\<exists>t. answered = [Reply t]))"
  using assms by (auto simp add: on_recognized_def split: if_splits sum.splits)

lemma on_recognized_error: "truthy err \<Longrightarrow> on_recognized err res = Inr [ConsoleLog err]"
  by (simp add: on_recognized_def)

text \<open>The trace of a voice message is one of five shapes.\<close>

lemma voice_message_shapes:
  obtains
    (no_file_info) e where
      "on_file_info bot_token file_id response = Inl e"
      "voice_message bot_token file_id response download err res
         = ([GetJSON (BASE_URL_AUDIO_PATH bot_token @ file_id)], Some e)"
  | (download_failed) file_path where
      "on_file_info bot_token file_id response
         = Inr ([RequestGet (BASE_URL_AUDIO_FILE bot_token) file_path,
                 CreateWriteStream (file_id @ ''.ogg'')], file_id)"
      "download = DownloadError"
      "voice_message bot_token file_id response download err res
         = ([GetJSON (BASE_URL_AUDIO_PATH bot_token @ file_id),
             RequestGet (BASE_URL_AUDIO_FILE bot_token) file_path,
             CreateWriteStream (file_id @ ''.ogg'')], None)"
  | (logged_error) file_path where
      "on_file_info bot_token file_id response
         = Inr ([RequestGet (BASE_URL_AUDIO_FILE bot_token) file_path,
                 CreateWriteStream (file_id @ ''.ogg'')], file_id)"
      "download = DownloadEnd" "truthy err"
      "voice_message bot_token file_id response download err res
         = ([GetJSON (BASE_URL_AUDIO_PATH bot_token @ file_id),
             RequestGet (BASE_URL_AUDIO_FILE bot_token) file_path,
             CreateWriteStream (file_id @ ''.ogg''),
             CreateReadStream (file_id @ ''.ogg''),
             Recognize \<lparr>audio = JStream (file_id @ ''.ogg''),
                        content_type = ''audio/ogg;codecs=opus'',
                        model = ''es-ES_BroadbandModel''\<rparr>,
             Unlink file_id,
             ConsoleLog err], None)"
  | (replied) file_path transcript where
      "on_file_info bot_token file_id response
         = Inr ([RequestGet (BASE_URL_AUDIO_FILE bot_token) file_path,
                 CreateWriteStream (file_id @ ''.ogg'')], file_id)"
      "download = DownloadEnd" "\<not> truthy err"
      "on_recognized err res = Inr [Reply transcript]"
      "voice_message bot_token file_id response download err res
         = ([GetJSON (BASE_URL_AUDIO_PATH bot_token @ file_id),
             RequestGet (BASE_URL_AUDIO_FILE bot_token) file_path,
             CreateWriteStream (file_id @ ''.ogg''),
             CreateReadStream (file_id @ ''.ogg''),
             Recognize \<lparr>audio = JStream (file_id @ ''.ogg''),
                        content_type = ''audio/ogg;codecs=opus'',
                        model = ''es-ES_BroadbandModel''\<rparr>,
             Unlink file_id,
             Reply transcript], None)"
  | (reply_raised) file_path e where
      "on_file_info bot_token file_id response
         = Inr ([RequestGet (BASE_URL_AUDIO_FILE bot_token) file_path,
                 CreateWriteStream (file_id @ ''.ogg'')], file_id)"
      "download = DownloadEnd" "\<not> truthy err"
      "on_recognized err res = Inl e"
      "voice_message bot_token file_id response download err res
         = ([GetJSON (BASE_URL_AUDIO_PATH bot_token @ file_id),
             RequestGet (BASE_URL_AUDIO_FILE bot_token) file_path,
             CreateWriteStream (file_id @ ''.ogg''),
             CreateReadStream (file_id @ ''.ogg''),
             Recognize \<lparr>audio = JStream (file_id @ ''.ogg''),
                        content_type = ''audio/ogg;codecs=opus'',
                        model = ''es-ES_BroadbandModel''\<rparr>,
             Unlink file_id], Some e)"
proof (cases "on_file_info bot_token file_id response")
  case (Inl e)
  then show thesis
    using no_file_info [of e] by (simp add: voice_message_def on_voice_def)
next
  case (Inr pair)
  obtain started local_file_path where pair: "pair = (started, local_file_path)"
    by (cases pair)
  from Inr pair on_file_info_result [of bot_token file_id response started local_file_path]
  obtain file_path where l: "local_file_path = file_id"
    and s: "started = [RequestGet (BASE_URL_AUDIO_FILE bot_token) file_path,
                       CreateWriteStream (file_id @ ''.ogg'')]"
    by auto
  show thesis
  proof (cases download)
    case DownloadError
    then show thesis
      using download_failed [of file_path] Inr pair l s
      by (simp add: voice_message_def on_voice_def)
  next
    case DownloadEnd
    show thesis
    proof (cases "on_recognized err res")
      case (Inl e)
      then have "\<not> truthy err" using on_recognized_error [of err res] by auto
      then show thesis
        using reply_raised [of file_path e] Inl DownloadEnd Inr pair l s
        by (simp add: voice_message_def on_voice_def on_download_end_def)
    next
      case answered: (Inr answered)
      from on_recognized_result [OF answered]
      show thesis
      proof (elim disjE conjE exE)
        assume "truthy err" "answered = [ConsoleLog err]"
        then show thesis
          using logged_error [of file_path] answered DownloadEnd Inr pair l s
          by (simp add: voice_message_def on_voice_def on_download_end_def)
      next
        fix t
        assume "\<not> truthy err" "answered = [Reply t]"
        then show thesis
          using replied [of file_path t] answered DownloadEnd Inr pair l s
          by (simp add: voice_message_def on_voice_def on_download_end_def)
      qed
    qed
  qed
qed

lemma first_transcript:
  assumes "\<not> truthy err"
    and "js_member res ''results'' = Inr (JArr (result # more_results))"
    and "js_member result ''alternatives'' = Inr (JArr (alternative # more_alternatives))"
    and "js_member alternative ''transcript'' = Inr transcript"
  shows "on_recognized err res = Inr [Reply transcript]"
  using assms by (simp add: on_recognized_def)

text \<open>
  C3, amended. When the transcription comes back without an error and with at least one
  result whose first alternative exists, the bot replies once, with the transcript of the
  first alternative of the first result.
\<close>

theorem reply_is_first_transcript:
  assumes "\<not> truthy err"
    and "js_member res ''results'' = Inr (JArr (result # more_results))"
    and "js_member result ''alternatives'' = Inr (JArr (alternative # more_alternatives))"
    and "js_member alternative ''transcript'' = Inr transcript"
    and "on_file_info bot_token file_id response = Inr (started, local_file_path)"
  shows "on_recognized err res = Inr [Reply transcript]
       \<and> replies (fst (voice_message bot_token file_id response DownloadEnd err res)) = [transcript]
       \<and> snd (voice_message bot_token file_id response DownloadEnd err res) = None"
proof -
  have r: "on_recognized err res = Inr [Reply transcript]"
    using assms(1-4) by (rule first_transcript)
  show ?thesis
  proof (cases rule: voice_message_shapes [where bot_token = bot_token and file_id = file_id
      and response = response and download = DownloadEnd and err = err and res = res])
    case (replied file_path t)
    with r show ?thesis by simp
  qed (use assms r in simp_all)
qed

theorem reply_is_first_transcript_witness:
  "replies (fst (voice_message ''123:abc'' ''AwADBAAD'' 
      (JObj [(''ok'', JBool True), (''result'', JObj [(''file_path'', JStr ''voice/file_7.oga'')])])
      DownloadEnd JNull
      (JObj [(''results'',
              JArr [JObj [(''alternatives'',
                           JArr [JObj [(''transcript'', JStr ''hola mundo '')]])]])])))
   = [JStr ''hola mundo '']"
  using reply_is_first_transcript
    [of JNull
        "JObj [(''results'',
              JArr [JObj [(''alternatives'',
                           JArr [JObj [(''transcript'', JStr ''hola mundo '')]])]])]"
        "JObj [(''alternatives'', JArr [JObj [(''transcript'', JStr ''hola mundo '')]])]"
        "[]"
        "JObj [(''transcript'', JStr ''hola mundo '')]"
        "[]"
        "JStr ''hola mundo ''"
        "''123:abc''" "''AwADBAAD''"
        "JObj [(''ok'', JBool True), (''result'', JObj [(''file_path'', JStr ''voice/file_7.oga'')])]"
        "[RequestGet (BASE_URL_AUDIO_FILE ''123:abc'') (JStr ''voice/file_7.oga''),
          CreateWriteStream (''AwADBAAD'' @ ''.ogg'')]"
        "''AwADBAAD''"]
  by (simp add: on_file_info_def)

text \<open>
  C3 as stated fails when the service answers without an error and with no result (as it
  does for audio without speech): reading the first result's alternatives raises, and no
  reply is sent.
\<close>

theorem no_result_no_reply_counterexample:
  "on_recognized JNull (JObj [(''results'', JArr []), (''result_index'', JNum 0)]) = Inl TypeError"
  by (simp add: on_recognized_def)

text \<open>
  C4. When the transcription comes back with an error, the callback logs it to the console
  and does nothing else: no reply is sent and the transcription is not asked for again. A
  reply is sent only when the download ended and the transcription came back without an
  error.
\<close>

theorem transcription_error_logged_and_dropped:
  "(truthy err \<longrightarrow> on_recognized err res = Inr [ConsoleLog err])
   \<and> (truthy err \<longrightarrow>
        replies (fst (voice_message bot_token file_id response download err res)) = [])
   \<and> (truthy err \<and> download = DownloadEnd
        \<and> (\<exists>started. on_file_info bot_token file_id response = Inr started) \<longrightarrow>
        logged (fst (voice_message bot_token file_id response download err res)) = [err]
      \<and> snd (voice_message bot_token file_id response download err res) = None)
   \<and> (replies (fst (voice_message bot_token file_id response download err res)) \<noteq> [] \<longrightarrow>
        \<not> truthy err \<and> download = DownloadEnd)
   \<and> length (recognitions (fst (voice_message bot_token file_id response download err res))) \<le> 1"
proof (intro conjI impI)
  assume "truthy err"
  then show "on_recognized err res = Inr [ConsoleLog err]" by (rule on_recognized_error)
next
  assume "truthy err"
  then show "replies (fst (voice_message bot_token file_id response download err res)) = []"
    by (cases rule: voice_message_shapes [where bot_token = bot_token and file_id = file_id
      and response = response and download = download and err = err and res = res]) simp_all
next
  assume a: "truthy err \<and> download = DownloadEnd
        \<and> (\<exists>started. on_file_info bot_token file_id response = Inr started)"
  then show "logged (fst (voice_message bot_token file_id response download err res)) = [err]"
    by (cases rule: voice_message_shapes [where bot_token = bot_token and file_id = file_id
      and response = response and download = download and err = err and res = res]) auto
  from a show "snd (voice_message bot_token file_id response download err res) = None"
    by (cases rule: voice_message_shapes [where bot_token = bot_token and file_id = file_id
      and response = response and download = download and err = err and res = res]) auto
next
  assume a: "replies (fst (voice_message bot_token file_id response download err res)) \<noteq> []"
  then show "\<not> truthy err"
    by (cases rule: voice_message_shapes [where bot_token = bot_token and file_id = file_id
      and response = response and download = download and err = err and res = res]) auto
  from a show "download = DownloadEnd"
    by (cases rule: voice_message_shapes [where bot_token = bot_token and file_id = file_id
      and response = response and download = download and err = err and res = res]) auto
next
  show "length (recognitions (fst (voice_message bot_token file_id response download err res))) \<le> 1"
    by (cases rule: voice_message_shapes [where bot_token = bot_token and file_id = file_id
      and response = response and download = download and err = err and res = res]) auto
qed

theorem transcription_error_logged_and_dropped_witness:
  "voice_message ''123:abc'' ''AwADBAAD''
      (JObj [(''ok'', JBool True), (''result'', JObj [(''file_path'', JStr ''voice/file_7.oga'')])])
      DownloadEnd (JErr (LibraryError ''503 Service Unavailable'')) JNull
   = ([GetJSON ''https://api.telegram.org/bot123:abc/getFile?file_id=AwADBAAD'',
       RequestGet ''http://api.telegram.org/file/bot123:abc/'' (JStr ''voice/file_7.oga''),
       CreateWriteStream ''AwADBAAD.ogg'',
       CreateReadStream ''AwADBAAD.ogg'',
       Recognize \<lparr>audio = JStream ''AwADBAAD.ogg'', content_type = ''audio/ogg;codecs=opus'',
                  model = ''es-ES_BroadbandModel''\<rparr>,
       Unlink ''AwADBAAD'',
       ConsoleLog (JErr (LibraryError ''503 Service Unavailable''))], None)
   \<and> replies (fst (voice_message ''123:abc'' ''AwADBAAD''
      (JObj [(''ok'', JBool True), (''result'', JObj [(''file_path'', JStr ''voice/file_7.oga'')])])
      DownloadEnd (JErr (LibraryError ''503 Service Unavailable'')) JNull)) = []
   \<and> replies (fst (voice_message ''123:abc'' ''AwADBAAD''
      (JObj [(''ok'', JBool True), (''result'', JObj [(''file_path'', JStr ''voice/file_7.oga'')])])
      DownloadEnd JNull
      (JObj [(''results'',
              JArr [JObj [(''alternatives'',
                           JArr [JObj [(''transcript'', JStr ''hola mundo '')]])]])]))) \<noteq> []"
  using
    transcription_error_logged_and_dropped
      [of "JErr (LibraryError ''503 Service Unavailable'')" JNull "''123:abc''" "''AwADBAAD''"
          "JObj [(''ok'', JBool True), (''result'', JObj [(''file_path'', JStr ''voice/file_7.oga'')])]"
          DownloadEnd]
    transcription_error_logged_and_dropped
      [of JNull
          "JObj [(''results'',
              JArr [JObj [(''alternatives'',
                           JArr [JObj [(''transcript'', JStr ''hola mundo '')]])]])]"
          "''123:abc''" "''AwADBAAD''"
          "JObj [(''ok'', JBool True), (''result'', JObj [(''file_path'', JStr ''voice/file_7.oga'')])]"
          DownloadEnd]
  by (simp add: voice_message_def on_file_info_def on_voice_def on_download_end_def
        on_recognized_def BASE_URL_AUDIO_PATH_def BASE_URL_AUDIO_FILE_def)

section \<open>Properties of the local audio file\<close>

lemma written_paths_of_message:
  "written_paths (fst (voice_message bot_token file_id response download err res))
   = (case on_file_info bot_token file_id response of
        Inl e \<Rightarrow> [] | Inr started \<Rightarrow> [file_id @ ''.ogg''])"
  by (cases rule: voice_message_shapes [where bot_token = bot_token and file_id = file_id
        and response = response and download = download and err = err and res = res])
     simp_all

text \<open>
  C5 does not hold of the code. Whenever the download of a voice message ends, the audio
  was written to \<^verbatim>\<open>file_id + '.ogg'\<close> and \<^verbatim>\<open>fs.unlink\<close> is given \<^verbatim>\<open>file_id\<close>, another
  path: the audio file is still there when the handler is done.
\<close>

theorem unlink_misses_audio_file:
  assumes "on_file_info bot_token file_id response = Inr (started, local_file_path)"
  shows "written_paths (fst (voice_message bot_token file_id response DownloadEnd err res))
           = [file_id @ ''.ogg'']
       \<and> unlinked_paths (fst (voice_message bot_token file_id response DownloadEnd err res))
           = [file_id]
       \<and> file_id \<noteq> file_id @ ''.ogg''
       \<and> file_id @ ''.ogg''
           \<in> files_after files (fst (voice_message bot_token file_id response DownloadEnd err res))"
  using assms
  by (cases rule: voice_message_shapes [where bot_token = bot_token and file_id = file_id
        and response = response and download = DownloadEnd and err = err and res = res])
     (simp_all add: files_after_def)

theorem unlink_misses_audio_file_witness:
  "unlinked_paths (fst (voice_message ''123:abc'' ''AwADBAAD''
      (JObj [(''ok'', JBool True), (''result'', JObj [(''file_path'', JStr ''voice/file_7.oga'')])])
      DownloadEnd JNull
      (JObj [(''results'',
              JArr [JObj [(''alternatives'',
                           JArr [JObj [(''transcript'', JStr ''hola mundo '')]])]])])))
     = [''AwADBAAD'']
   \<and> files_after {} (fst (voice_message ''123:abc'' ''AwADBAAD''
      (JObj [(''ok'', JBool True), (''result'', JObj [(''file_path'', JStr ''voice/file_7.oga'')])])
      DownloadEnd JNull
      (JObj [(''results'',
              JArr [JObj [(''alternatives'',
                           JArr [JObj [(''transcript'', JStr ''hola mundo '')]])]])])))
     = {''AwADBAAD.ogg''}"
  using unlink_misses_audio_file
    [of "''123:abc''" "''AwADBAAD''"
        "JObj [(''ok'', JBool True), (''result'', JObj [(''file_path'', JStr ''voice/file_7.oga'')])]"
        "[RequestGet (BASE_URL_AUDIO_FILE ''123:abc'') (JStr ''voice/file_7.oga''),
          CreateWriteStream (''AwADBAAD'' @ ''.ogg'')]"
        "''AwADBAAD''"
        JNull
        "JObj [(''results'',
              JArr [JObj [(''alternatives'',
                           JArr [JObj [(''transcript'', JStr ''hola mundo '')]])]])]"
        "{}"]
  by (simp add: voice_message_def on_file_info_def on_voice_def on_download_end_def
        on_recognized_def files_after_def)

text \<open>
  C6. The only local file a voice message writes is \<^verbatim>\<open>file_id + '.ogg'\<close>, so two
  messages with different \<^verbatim>\<open>file_id\<close>s never write to the same path.
\<close>

theorem distinct_file_ids_write_distinct_paths:
  "(file_id1 \<noteq> file_id2 \<longrightarrow>
       set (written_paths (fst (voice_message token1 file_id1 response1 download1 err1 res1)))
     \<inter> set (written_paths (fst (voice_message token2 file_id2 response2 download2 err2 res2)))
     = {})
   \<and> set (written_paths (fst (voice_message token1 file_id1 response1 download1 err1 res1)))
       \<subseteq> {file_id1 @ ''.ogg''}
   \<and> ((\<exists>started. on_file_info token1 file_id1 response1 = Inr started) \<longrightarrow>
        written_paths (fst (voice_message token1 file_id1 response1 download1 err1 res1))
        = [file_id1 @ ''.ogg''])"
  unfolding written_paths_of_message
  by (auto split: sum.splits)

theorem distinct_file_ids_write_distinct_paths_witness:
  "''AwADBAAD'' \<noteq> ''AwADBAAE''
   \<and> written_paths (fst (voice_message ''123:abc'' ''AwADBAAD''
        (JObj [(''result'', JObj [(''file_path'', JStr ''voice/file_7.oga'')])])
        DownloadEnd JNull JNull)) = [''AwADBAAD.ogg'']
   \<and> written_paths (fst (voice_message ''123:abc'' ''AwADBAAE''
        (JObj [(''result'', JObj [(''file_path'', JStr ''voice/file_8.oga'')])])
        DownloadError JNull JNull)) = [''AwADBAAE.ogg'']"
  using
    distinct_file_ids_write_distinct_paths
      [of "''AwADBAAD''" "''AwADBAAE''" "''123:abc''"
          "JObj [(''result'', JObj [(''file_path'', JStr ''voice/file_7.oga'')])]"
          DownloadEnd JNull JNull "''123:abc''"
          "JObj [(''result'', JObj [(''file_path'', JStr ''voice/file_8.oga'')])]"
          DownloadError JNull JNull]
    distinct_file_ids_write_distinct_paths
      [of "''AwADBAAE''" "''AwADBAAD''" "''123:abc''"
          "JObj [(''result'', JObj [(''file_path'', JStr ''voice/file_8.oga'')])]"
          DownloadError JNull JNull "''123:abc''"
          "JObj [(''result'', JObj [(''file_path'', JStr ''voice/file_7.oga'')])]"
          DownloadEnd JNull JNull]
  by (simp add: on_file_info_def)

section \<open>Properties of the configuration\<close>

lemma startup_trace: "fst (startup readFileSync safeLoad) = fst (data readFileSync safeLoad)"
  by (simp add: startup_def split: prod.splits)

lemma data_reads_once: "file_reads (fst (data readFileSync safeLoad)) = [''config/config.yml'']"
  by (simp add: data_def split: sum.splits)

lemma voice_message_reads_nothing:
  "file_reads (fst (voice_message bot_token file_id response download err res)) = []"
  by (cases rule: voice_message_shapes [where bot_token = bot_token and file_id = file_id
        and response = response and download = download and err = err and res = res])
     simp_all

text \<open>
  C7. \<^verbatim>\<open>config.data\<close> is called once, when the bot's module is loaded, and reads the
  configuration file once; no voice message reads it again. When the file is read and its
  text parses, the parsed value is returned as it is, whatever keys it has; when the read
  or the parse throws, the exception is logged and the string \<^verbatim>\<open>'error'\<close> is returned.
  Nothing is thrown in either case.
\<close>

theorem config_data_parsed_or_error:
  "(\<forall>text doc. readFileSync ''config/config.yml'' ''utf8'' = Inr text \<and> safeLoad text = Inr doc \<longrightarrow>
        data readFileSync safeLoad = ([ReadFileSync ''config/config.yml'' ''utf8''], doc))
   \<and> (\<forall>e. readFileSync ''config/config.yml'' ''utf8'' = Inl e \<longrightarrow>
        data readFileSync safeLoad
          = ([ReadFileSync ''config/config.yml'' ''utf8'', ConsoleLog (JErr e)], JStr ''error''))
   \<and> (\<forall>text e. readFileSync ''config/config.yml'' ''utf8'' = Inr text \<and> safeLoad text = Inl e \<longrightarrow>
        data readFileSync safeLoad
          = ([ReadFileSync ''config/config.yml'' ''utf8'', ConsoleLog (JErr e)], JStr ''error''))
   \<and> file_reads (fst (startup readFileSync safeLoad)) = [''config/config.yml'']
   \<and> file_reads (fst (voice_message bot_token file_id response download err res)) = []"
proof (intro conjI)
  show "file_reads (fst (startup readFileSync safeLoad)) = [''config/config.yml'']"
    by (simp only: startup_trace data_reads_once)
  show "file_reads (fst (voice_message bot_token file_id response download err res)) = []"
    by (rule voice_message_reads_nothing)
qed (simp_all add: data_def)

theorem config_data_parsed_or_error_witness:
  "data (\<lambda>path encoding. Inr ''WATSON_USER: watson'')
        (\<lambda>text. Inr (JObj [(''WATSON_USER'', JStr ''watson'')]))
     = ([ReadFileSync ''config/config.yml'' ''utf8''], JObj [(''WATSON_USER'', JStr ''watson'')])
   \<and> data (\<lambda>path encoding. Inl (LibraryError ''ENOENT: no such file or directory''))
        (\<lambda>text. Inr (JObj []))
     = ([ReadFileSync ''config/config.yml'' ''utf8'',
         ConsoleLog (JErr (LibraryError ''ENOENT: no such file or directory''))], JStr ''error'')
   \<and> data (\<lambda>path encoding. Inr ''a: [b'')
        (\<lambda>text. Inl (LibraryError ''YAMLException: unexpected end of the stream''))
     = ([ReadFileSync ''config/config.yml'' ''utf8'',
         ConsoleLog (JErr (LibraryError ''YAMLException: unexpected end of the stream''))],
        JStr ''error'')"
  using
    config_data_parsed_or_error
      [of "\<lambda>path encoding. Inr ''WATSON_USER: watson''"
          "\<lambda>text. Inr (JObj [(''WATSON_USER'', JStr ''watson'')])"]
    config_data_parsed_or_error
      [of "\<lambda>path encoding. Inl (LibraryError ''ENOENT: no such file or directory'')"
          "\<lambda>text. Inr (JObj [])"]
    config_data_parsed_or_error
      [of "\<lambda>path encoding. Inr ''a: [b''"
          "\<lambda>text. Inl (LibraryError ''YAMLException: unexpected end of the stream'')"]
  by simp

end
